theory Spec2Isabelle
  imports Main "HOL-Library.Word" "HOL-Library.Sublist"
begin

section \<open>The notes application: state, requests and handlers\<close>

text \<open>
  A shallow embedding of \<^verbatim>\<open>src/notes_frontend/src/App.js\<close>. The component's
  \<^verbatim>\<open>useState\<close> cells become one record; every handler becomes a function from the
  state of the render it closes over to an outcome: the state after its updates, the
  trace of what it did to the outside world (requests to the remote store, alert and
  confirm dialogs) in order, and the exception it ended with, if any. What the outside
  world answers (the store's response, the user's answer to a confirm dialog, the clock)
  is an argument of the handler. Where a handler reads the state again after an
  \<^verbatim>\<open>await\<close> (\<^verbatim>\<open>fetchNotes\<close>, \<^verbatim>\<open>handleNoteSave\<close>), the state its writes land on is
  an argument of its own, so that events handled while the request is in flight are
  covered.
\<close>

subsection \<open>JavaScript strings\<close>

text \<open>
  A JavaScript string is a sequence of UTF-16 code units. \<^verbatim>\<open>String.prototype.trim\<close>
  removes the WhiteSpace and LineTerminator code points from both ends; all of them lie in
  the basic plane, so each is one code unit.
\<close>

type_synonym js_string = "16 word list"

definition js_lit :: "string \<Rightarrow> js_string" where
  "js_lit cs = map (\<lambda>c. of_nat (of_char c)) cs"

definition js_whitespace :: "16 word \<Rightarrow> bool" where
  "js_whitespace c =
     (c = 0x0009 \<or> c = 0x000A \<or> c = 0x000B \<or> c = 0x000C \<or> c = 0x000D \<or> c = 0x0020 \<or>
      c = 0x00A0 \<or> c = 0x1680 \<or> (0x2000 \<le> c \<and> c \<le> 0x200A) \<or> c = 0x2028 \<or>
      c = 0x2029 \<or> c = 0x202F \<or> c = 0x205F \<or> c = 0x3000 \<or> c = 0xFEFF)"

definition js_trim :: "js_string \<Rightarrow> js_string" where
  "js_trim s = rev (dropWhile js_whitespace (rev (dropWhile js_whitespace s)))"

text \<open>\<^verbatim>\<open>x || ''\<close> on a string: the empty string is the only falsy one.\<close>

definition or_empty :: "js_string \<Rightarrow> js_string" where
  "or_empty x = (if x = [] then [] else x)"

subsection \<open>Data\<close>

type_synonym user_id = nat
type_synonym note_id = nat
type_synonym timestamp = nat

record auth_user =
  u_id :: user_id

text \<open>
  A note object, as held in \<^verbatim>\<open>notes\<close> and \<^verbatim>\<open>selectedNote\<close>. An object that
  \<^verbatim>\<open>select('*')\<close> returns has every property. The object \<^verbatim>\<open>{...prev, ...editNote}\<close>
  that line 190 builds from a null \<^verbatim>\<open>prev\<close> has a title and a content only; reading
  a property that an object does not have gives \<^verbatim>\<open>undefined\<close>, here \<open>None\<close>.
\<close>

record note_row =
  n_id :: "note_id option"
  n_user_id :: "user_id option"
  n_title :: js_string
  n_content :: js_string
  n_updated_at :: "timestamp option"

text \<open>The draft \<^verbatim>\<open>editNote\<close>.\<close>

record draft =
  title :: js_string
  content :: js_string

datatype theme_name = light | dark

datatype auth_view = sign_in | sign_up

record app_state =
  theme :: theme_name
  user :: "auth_user option"
  authView :: auth_view
  "notes" :: "note_row list"
  loadingNotes :: bool
  selectedNote :: "note_row option"
  editNote :: draft
  search :: js_string
  adding :: bool

text \<open>The initial values of the \<^verbatim>\<open>useState\<close> cells (lines 17 to 29).\<close>

definition initial_state :: app_state where
  "initial_state =
     \<lparr>theme = light, user = None, authView = sign_in, notes = [], loadingNotes = False,
      selectedNote = None, editNote = \<lparr>title = [], content = []\<rparr>, search = [],
      adding = False\<rparr>"

subsection \<open>The outside world\<close>

text \<open>
  The requests the component sends through the Supabase client. \<^verbatim>\<open>SelectNotes uid p\<close> is
  \<^verbatim>\<open>from('notes').select('*').eq('user_id', uid).order('updated_at', {ascending: false})\<close>,
  followed by \<^verbatim>\<open>.ilike('title', p)\<close> when a pattern is given. The id of an update or
  delete request is what \<^verbatim>\<open>selectedNote.id\<close> gave, \<open>None\<close> for \<^verbatim>\<open>undefined\<close>.
\<close>

datatype request =
    SignOut
  | SelectNotes user_id "js_string option"
  | InsertNote user_id js_string js_string
  | UpdateNote "note_id option" user_id js_string js_string timestamp
  | DeleteNote "note_id option" user_id

datatype js_error = TypeError

datatype effect =
    Request request
  | Alert js_string
  | Confirm js_string

record pg_error =
  message :: js_string

record outcome =
  post :: app_state
  effects :: "effect list"
  thrown :: "js_error option"

subsection \<open>Loading the notes\<close>

text \<open>
  \<^verbatim>\<open>fetchNotes\<close> (lines 71 to 89). It reads \<^verbatim>\<open>user\<close> and \<^verbatim>\<open>search\<close> from the render it was
  created in (\<open>r\<close>) and writes to the current state (\<open>s\<close>). \<^verbatim>\<open>setLoadingNotes(true)\<close> runs
  before \<^verbatim>\<open>user.id\<close> is read, so with no user the flag stays set and a TypeError is
  thrown.
\<close>

definition search_pattern :: "js_string \<Rightarrow> js_string" where
  "search_pattern q = [0x25] @ q @ [0x25]"

definition notes_query :: "auth_user \<Rightarrow> js_string \<Rightarrow> request" where
  "notes_query u q =
     SelectNotes (u_id u) (if q \<noteq> [] then Some (search_pattern q) else None)"

definition fetchNotes :: "app_state \<Rightarrow> app_state \<Rightarrow> pg_error + note_row list \<Rightarrow> outcome" where
  "fetchNotes r s resp =
     (case user r of
        None \<Rightarrow> \<lparr>post = s\<lparr>loadingNotes := True\<rparr>, effects = [], thrown = Some TypeError\<rparr>
      | Some u \<Rightarrow>
          (case resp of
             Inl err \<Rightarrow>
               \<lparr>post = s\<lparr>notes := [], loadingNotes := False\<rparr>,
                effects = [Request (notes_query u (search r))], thrown = None\<rparr>
           | Inr data \<Rightarrow>
               \<lparr>post = s\<lparr>notes := data, loadingNotes := False\<rparr>,
                effects = [Request (notes_query u (search r))], thrown = None\<rparr>))"

text \<open>A handler's own effects, followed by the load it started.\<close>

definition then_fetch :: "effect list \<Rightarrow> outcome \<Rightarrow> outcome" where
  "then_fetch es out = out\<lparr>effects := es @ effects out\<rparr>"

subsection \<open>Session handlers\<close>

text \<open>The listener passed to \<^verbatim>\<open>onAuthStateChange\<close> (lines 46 to 52).\<close>

datatype auth_event =
  INITIAL_SESSION | SIGNED_IN | SIGNED_OUT | TOKEN_REFRESHED | USER_UPDATED | PASSWORD_RECOVERY

record session =
  session_user :: "auth_user option"

definition onAuthStateChange :: "app_state \<Rightarrow> auth_event \<Rightarrow> session option \<Rightarrow> outcome" where
  "onAuthStateChange s event sess =
     (let s1 = s\<lparr>user := (case sess of None \<Rightarrow> None | Some x \<Rightarrow> session_user x)\<rparr>
      in \<lparr>post = (if event = SIGNED_OUT then s1\<lparr>notes := [], selectedNote := None\<rparr> else s1),
          effects = [], thrown = None\<rparr>)"

text \<open>\<^verbatim>\<open>handleLogout\<close> (lines 129 to 134).\<close>

definition handleLogout :: "app_state \<Rightarrow> outcome" where
  "handleLogout s =
     \<lparr>post = s\<lparr>user := None, notes := [], selectedNote := None\<rparr>,
      effects = [Request SignOut], thrown = None\<rparr>"

subsection \<open>Editor handlers\<close>

text \<open>\<^verbatim>\<open>handleNoteSelect\<close>, \<^verbatim>\<open>handleNoteAddClick\<close>, \<^verbatim>\<open>handleNoteEditChange\<close> (lines 137 to 154).\<close>

definition handleNoteSelect :: "app_state \<Rightarrow> note_row \<Rightarrow> app_state" where
  "handleNoteSelect s n =
     s\<lparr>selectedNote := Some n, editNote := \<lparr>title = n_title n, content = n_content n\<rparr>,
       adding := False\<rparr>"

definition handleNoteAddClick :: "app_state \<Rightarrow> app_state" where
  "handleNoteAddClick s =
     s\<lparr>adding := True, selectedNote := None, editNote := \<lparr>title = [], content = []\<rparr>\<rparr>"

datatype field_name = title_field | content_field

definition handleNoteEditChange :: "app_state \<Rightarrow> field_name \<Rightarrow> js_string \<Rightarrow> app_state" where
  "handleNoteEditChange s name v =
     (case name of
        title_field \<Rightarrow> s\<lparr>editNote := (editNote s)\<lparr>title := v\<rparr>\<rparr>
      | content_field \<Rightarrow> s\<lparr>editNote := (editNote s)\<lparr>content := v\<rparr>\<rparr>)"

text \<open>
  \<^verbatim>\<open>handleNoteSave\<close> (lines 157 to 196). The handler reads \<^verbatim>\<open>editNote\<close>, \<^verbatim>\<open>adding\<close>,
  \<^verbatim>\<open>user\<close> and \<^verbatim>\<open>selectedNote\<close> from the render it was created in (\<open>r\<close>), and its
  writes land on the current state (\<open>s\<close>): the writes of lines 173 and 190 happen after
  the \<^verbatim>\<open>await\<close>, so \<open>s\<close> is the state at the time the store answers, which is \<open>r\<close>
  only when no other event was handled in between. \<open>now\<close> is the clock read by
  \<^verbatim>\<open>new Date()\<close>, \<open>resp\<close> the \<^verbatim>\<open>error\<close> of the store's answer to the insert or
  update, \<open>fresp\<close> its answer to the load that a successful save starts.

  Line 190 is the functional update \<^verbatim>\<open>setSelectedNote((prev) => ({...prev, ...editNote}))\<close>:
  \<^verbatim>\<open>prev\<close> is the selection of the current state, \<^verbatim>\<open>editNote\<close> the draft of the
  render. Spreading a note object and then the draft gives that object with the draft's
  title and content written over its own; spreading \<^verbatim>\<open>null\<close> contributes nothing.
\<close>

definition merge_draft :: "note_row \<Rightarrow> draft \<Rightarrow> note_row" where
  "merge_draft prev d = prev\<lparr>n_title := title d, n_content := content d\<rparr>"

definition spread_draft :: "note_row option \<Rightarrow> draft \<Rightarrow> note_row" where
  "spread_draft prev d =
     (case prev of
        None \<Rightarrow>
          \<lparr>n_id = None, n_user_id = None, n_title = title d, n_content = content d,
           n_updated_at = None\<rparr>
      | Some p \<Rightarrow> merge_draft p d)"

definition handleNoteSave ::
  "app_state \<Rightarrow> app_state \<Rightarrow> timestamp \<Rightarrow> pg_error option \<Rightarrow> pg_error + note_row list
     \<Rightarrow> outcome" where
  "handleNoteSave r s now resp fresp =
     (if js_trim (title (editNote r)) = [] then
        \<lparr>post = s, effects = [Alert (js_lit ''Title is required.'')], thrown = None\<rparr>
      else if adding r then
        (case user r of
           None \<Rightarrow> \<lparr>post = s, effects = [], thrown = Some TypeError\<rparr>
         | Some u \<Rightarrow>
             (let req = Request (InsertNote (u_id u) (title (editNote r))
                                   (or_empty (content (editNote r))))
              in case resp of
                   None \<Rightarrow> then_fetch [req] (fetchNotes r (s\<lparr>adding := False\<rparr>) fresp)
                 | Some err \<Rightarrow> \<lparr>post = s, effects = [req, Alert (message err)], thrown = None\<rparr>))
      else
        (case selectedNote r of
           None \<Rightarrow> \<lparr>post = s, effects = [], thrown = Some TypeError\<rparr>
         | Some n \<Rightarrow>
             (case user r of
                None \<Rightarrow> \<lparr>post = s, effects = [], thrown = Some TypeError\<rparr>
              | Some u \<Rightarrow>
                  (let req = Request (UpdateNote (n_id n) (u_id u) (title (editNote r))
                                        (or_empty (content (editNote r))) now)
                   in case resp of
                        None \<Rightarrow>
                          then_fetch [req]
                            (fetchNotes r
                               (s\<lparr>selectedNote :=
                                     Some (spread_draft (selectedNote s) (editNote r))\<rparr>)
                               fresp)
                      | Some err \<Rightarrow>
                          \<lparr>post = s, effects = [req, Alert (message err)], thrown = None\<rparr>))))"

text \<open>
  \<^verbatim>\<open>handleNoteDelete\<close> (lines 199 to 213). \<open>ok\<close> is the user's answer to the confirm
  dialog, should it be shown.
\<close>

definition handleNoteDelete ::
  "app_state \<Rightarrow> bool \<Rightarrow> pg_error option \<Rightarrow> pg_error + note_row list \<Rightarrow> outcome" where
  "handleNoteDelete s ok resp fresp =
     (case selectedNote s of
        None \<Rightarrow> \<lparr>post = s, effects = [], thrown = None\<rparr>
      | Some n \<Rightarrow>
          (let ask = Confirm (js_lit ''Delete this note?'')
           in if \<not> ok then \<lparr>post = s, effects = [ask], thrown = None\<rparr>
              else
                (case user s of
                   None \<Rightarrow> \<lparr>post = s, effects = [ask], thrown = Some TypeError\<rparr>
                 | Some u \<Rightarrow>
                     (let req = Request (DeleteNote (n_id n) (u_id u))
                      in case resp of
                           None \<Rightarrow>
                             then_fetch [ask, req]
                               (fetchNotes s (s\<lparr>selectedNote := None\<rparr>) fresp)
                         | Some err \<Rightarrow>
                             \<lparr>post = s, effects = [ask, req, Alert (message err)],
                              thrown = None\<rparr>))))"

subsection \<open>What is rendered\<close>

text \<open>
  The page layout (lines 376 to 398): with no user the sign-in form; otherwise the main
  pane shows the editor for a new note when \<^verbatim>\<open>adding\<close>, the editor for the selected
  note when there is one, and the placeholder text otherwise. In the words of the
  specification, the placeholder is Browsing, the editor for a new note is
  Editing(draft, none), and the editor for the selected note stands for both Viewing(note)
  and Editing(draft, note): the component keeps no flag that would tell them apart, and
  \<^verbatim>\<open>NoteViewer\<close> (lines 359 to 373) is defined but never rendered.
\<close>

datatype pane = NewNoteEditor draft | SelectedNoteEditor note_row draft | Placeholder

definition mainPane :: "app_state \<Rightarrow> pane" where
  "mainPane s =
     (if adding s then NewNoteEditor (editNote s)
      else case selectedNote s of
             Some n \<Rightarrow> SelectedNoteEditor n (editNote s)
           | None \<Rightarrow> Placeholder)"

datatype page = AuthForm | NotesPage pane

definition render :: "app_state \<Rightarrow> page" where
  "render s = (case user s of None \<Rightarrow> AuthForm | Some u \<Rightarrow> NotesPage (mainPane s))"


subsection \<open>The debounced search\<close>

text \<open>
  \<^verbatim>\<open>handleSearchChange\<close> (lines 216 to 218) and the effect that follows a change of
  \<^verbatim>\<open>search\<close> (lines 221 to 229). The effect's body, run in the render \<open>r\<close> at time
  \<open>now\<close> (in milliseconds), returns at once when there is no user and otherwise sets a
  timeout of 300 that will call the \<^verbatim>\<open>fetchNotes\<close> of that render.
\<close>

definition handleSearchChange :: "app_state \<Rightarrow> js_string \<Rightarrow> app_state" where
  "handleSearchChange s v = s\<lparr>search := v\<rparr>"

record timer =
  due :: nat
  closure :: app_state

definition searchEffect :: "app_state \<Rightarrow> nat \<Rightarrow> timer option" where
  "searchEffect r now =
     (case user r of None \<Rightarrow> None | Some u \<Rightarrow> Some \<lparr>due = now + 300, closure = r\<rparr>)"

text \<open>
  The mounted component on a virtual clock. The state cells, the time, the pending
  timeout of the search effect (if any), whether the component is still mounted, and the
  trace so far. The rules of the platform that the effect relies on are written into
  \<open>step\<close>: an effect with dependency list \<^verbatim>\<open>[search]\<close> is re-run when a render sees a
  value of \<^verbatim>\<open>search\<close> that differs from the previous one, after the cleanup of its
  previous run (\<^verbatim>\<open>clearTimeout\<close>); setting a state cell to the value it holds causes no
  re-run; a timeout runs its callback once the clock has reached its due time, unless it
  was cleared; unmounting runs the cleanup. \<open>resp\<close> is the store's answer to a load that
  fires.
\<close>

record runtime =
  app :: app_state
  clock :: nat
  timeout :: "timer option"
  mounted :: bool
  trace :: "effect list"

datatype event = SearchChange js_string | Wait nat | Unmount

fun step :: "pg_error + note_row list \<Rightarrow> runtime \<Rightarrow> event \<Rightarrow> runtime" where
  "step resp rt (SearchChange v) =
     (if mounted rt \<and> v \<noteq> search (app rt) then
        (let s = handleSearchChange (app rt) v
         in rt\<lparr>app := s, timeout := searchEffect s (clock rt)\<rparr>)
      else rt)"
| "step resp rt (Wait d) =
     (case timeout rt of
        None \<Rightarrow> rt\<lparr>clock := clock rt + d\<rparr>
      | Some t \<Rightarrow>
          if due t \<le> clock rt + d then
            (let out = fetchNotes (closure t) (app rt) resp
             in rt\<lparr>app := post out, clock := clock rt + d, timeout := None,
                   trace := trace rt @ effects out\<rparr>)
          else rt\<lparr>clock := clock rt + d\<rparr>)"
| "step resp rt Unmount = rt\<lparr>timeout := None, mounted := False\<rparr>"

definition run :: "pg_error + note_row list \<Rightarrow> runtime \<Rightarrow> event list \<Rightarrow> runtime" where
  "run resp rt evs = foldl (step resp) rt evs"

text \<open>
  A burst of typing: each pair is the time since the previous change and the new search
  term. \<open>changes_from cur vs\<close> says that every term of \<open>vs\<close> differs from the one before
  it, starting from \<open>cur\<close>: each is a change of the search term.
\<close>

fun typing :: "(nat \<times> js_string) list \<Rightarrow> event list" where
  "typing [] = []"
| "typing ((d, v) # ks) = Wait d # SearchChange v # typing ks"

fun changes_from :: "js_string \<Rightarrow> js_string list \<Rightarrow> bool" where
  "changes_from cur [] = True"
| "changes_from cur (v # vs) = (v \<noteq> cur \<and> changes_from v vs)"

text \<open>The state right after a change: the timeout is due 300 after the present moment.\<close>

definition armed :: "auth_user \<Rightarrow> runtime \<Rightarrow> bool" where
  "armed u rt \<longleftrightarrow>
     user (app rt) = Some u \<and> mounted rt \<and>
     timeout rt = Some \<lparr>due = clock rt + 300, closure = app rt\<rparr>"

subsection \<open>What a select request asks the store for\<close>

text \<open>
  The store (PostgreSQL behind PostgREST) is not part of the repository. To say which
  rows a \<open>SelectNotes\<close> request asks for, its documented reading is written out here.
  PostgREST turns every \<^verbatim>\<open>*\<close> of an \<^verbatim>\<open>ilike\<close> pattern into \<^verbatim>\<open>%\<close>. In a PostgreSQL
  \<^verbatim>\<open>LIKE\<close> pattern \<^verbatim>\<open>%\<close> stands for any sequence of characters, \<^verbatim>\<open>_\<close> for any single
  character, and a backslash makes the character after it stand for itself; a pattern
  that ends in a lone backslash is rejected. \<^verbatim>\<open>ILIKE\<close> compares characters after case
  folding; the folding \<open>lc\<close> is a parameter. The rows are those of the table with the
  given \<^verbatim>\<open>user_id\<close> whose title matches, by descending \<^verbatim>\<open>updated_at\<close>. A row of
  the table has all its columns; \<open>row_object\<close> is the object the client receives for it.
\<close>

record stored_note =
  row_id :: note_id
  row_user_id :: user_id
  row_title :: js_string
  row_content :: js_string
  row_updated_at :: timestamp

definition row_object :: "stored_note \<Rightarrow> note_row" where
  "row_object x =
     \<lparr>n_id = Some (row_id x), n_user_id = Some (row_user_id x), n_title = row_title x,
      n_content = row_content x, n_updated_at = Some (row_updated_at x)\<rparr>"

datatype like_token = AnySeq | AnyOne | Lit "16 word"

definition plain_token :: "16 word \<Rightarrow> like_token" where
  "plain_token c = (if c = 0x25 then AnySeq else if c = 0x5F then AnyOne else Lit c)"

fun like_tokens :: "js_string \<Rightarrow> like_token list option" where
  "like_tokens [] = Some []"
| "like_tokens [c] = (if c = 0x5C then None else Some [plain_token c])"
| "like_tokens (c # d # ds) =
     (if c = 0x5C then map_option ((#) (Lit d)) (like_tokens ds)
      else map_option ((#) (plain_token c)) (like_tokens (d # ds)))"

fun like_match :: "(16 word \<Rightarrow> 16 word) \<Rightarrow> like_token list \<Rightarrow> js_string \<Rightarrow> bool" where
  "like_match lc [] t = (t = [])"
| "like_match lc (AnySeq # ps) [] = like_match lc ps []"
| "like_match lc (AnySeq # ps) (x # xs) =
     (like_match lc ps (x # xs) \<or> like_match lc (AnySeq # ps) xs)"
| "like_match lc (AnyOne # ps) [] = False"
| "like_match lc (AnyOne # ps) (x # xs) = like_match lc ps xs"
| "like_match lc (Lit c # ps) [] = False"
| "like_match lc (Lit c # ps) (x # xs) = (lc c = lc x \<and> like_match lc ps xs)"

definition postgrest_pattern :: "js_string \<Rightarrow> js_string" where
  "postgrest_pattern p = map (\<lambda>c. if c = 0x2A then 0x25 else c) p"

definition order_desc :: "stored_note list \<Rightarrow> stored_note list" where
  "order_desc rows = rev (sort_key row_updated_at rows)"

definition select_rows ::
  "(16 word \<Rightarrow> 16 word) \<Rightarrow> stored_note list \<Rightarrow> user_id \<Rightarrow> js_string option
     \<Rightarrow> stored_note list option" where
  "select_rows lc table uid pat =
     (let owned = filter (\<lambda>n. row_user_id n = uid) table
      in case pat of
           None \<Rightarrow> Some (order_desc owned)
         | Some p \<Rightarrow>
             (case like_tokens (postgrest_pattern p) of
                None \<Rightarrow> None
              | Some ps \<Rightarrow>
                  Some (order_desc (filter (\<lambda>n. like_match lc ps (row_title n)) owned))))"

definition requested_rows ::
  "(16 word \<Rightarrow> 16 word) \<Rightarrow> stored_note list \<Rightarrow> request \<Rightarrow> stored_note list option" where
  "requested_rows lc table req =
     (case req of SelectNotes uid pat \<Rightarrow> select_rows lc table uid pat | _ \<Rightarrow> None)"

text \<open>The characters that a pattern does not take literally.\<close>

definition wildcard :: "16 word \<Rightarrow> bool" where
  "wildcard c = (c = 0x25 \<or> c = 0x5F \<or> c = 0x5C \<or> c = 0x2A)"

text \<open>Case folding of the letters A to Z, for running examples.\<close>

definition ascii_lower :: "16 word \<Rightarrow> 16 word" where
  "ascii_lower c = (if 0x41 \<le> c \<and> c \<le> 0x5A then c + 0x20 else c)"

subsection \<open>Example sessions\<close>

text \<open>
  States reached through the handlers, used to run the theorems below on concrete input:
  a user who has signed in and whose one stored note has been loaded; the same user after
  pressing "Add Note" and typing a title with a leading space; and after selecting the
  stored note and typing a title with a trailing space.
\<close>

definition example_user :: auth_user where
  "example_user = \<lparr>u_id = 1\<rparr>"

definition example_row :: stored_note where
  "example_row =
     \<lparr>row_id = 10, row_user_id = 1, row_title = [0x41], row_content = [0x61],
      row_updated_at = 5\<rparr>"

definition example_note :: note_row where
  "example_note = row_object example_row"

definition signed_in_state :: app_state where
  "signed_in_state =
     (let s = post (onAuthStateChange initial_state SIGNED_IN
                      (Some \<lparr>session_user = Some example_user\<rparr>))
      in post (fetchNotes s s (Inr [example_note])))"

definition new_note_state :: app_state where
  "new_note_state =
     handleNoteEditChange (handleNoteAddClick signed_in_state) title_field [0x20, 0x41]"

definition edit_note_state :: app_state where
  "edit_note_state =
     handleNoteEditChange (handleNoteSelect signed_in_state example_note) title_field
       [0x42, 0x20]"

text \<open>A user who pressed "Add Note" and typed a space and a tab into the title.\<close>

definition blank_title_state :: app_state where
  "blank_title_state =
     handleNoteEditChange (handleNoteAddClick signed_in_state) title_field [0x20, 0x09]"

text \<open>
  The same user with a second stored note, who selects the first note, types a title with
  a trailing space and presses "Save"; and the state this has become when, with the
  update still in flight, the user has clicked the second note in the sidebar.
\<close>

definition other_note :: note_row where
  "other_note =
     row_object
       \<lparr>row_id = 11, row_user_id = 1, row_title = [0x43], row_content = [0x63],
        row_updated_at = 4\<rparr>"

definition two_notes_state :: app_state where
  "two_notes_state =
     post (fetchNotes signed_in_state signed_in_state (Inr [example_note, other_note]))"

definition saving_state :: app_state where
  "saving_state =
     handleNoteEditChange (handleNoteSelect two_notes_state example_note) title_field
       [0x42, 0x20]"


text \<open>The signed-in user with the component mounted, before any typing.\<close>

definition idle_runtime :: runtime where
  "idle_runtime =
     \<lparr>app = signed_in_state, clock = 0, timeout = None, mounted = True, trace = []\<rparr>"

section \<open>Properties\<close>

lemma signed_in_state_eq:
  "signed_in_state =
     \<lparr>theme = light, user = Some example_user, authView = sign_in, notes = [example_note],
      loadingNotes = False, selectedNote = None, editNote = \<lparr>title = [], content = []\<rparr>,
      search = [], adding = False\<rparr>"
  by (simp add: signed_in_state_def onAuthStateChange_def fetchNotes_def initial_state_def)

lemmas example_defs =
  example_user_def example_note_def example_row_def row_object_def signed_in_state_eq
  new_note_state_def edit_note_state_def blank_title_state_def handleNoteEditChange_def
  handleNoteAddClick_def handleNoteSelect_def

subsection \<open>Trimming\<close>

lemma js_trim_eq_Nil_iff: "js_trim t = [] \<longleftrightarrow> list_all js_whitespace t"
proof
  assume "js_trim t = []"
  then have inner: "\<forall>x\<in>set (dropWhile js_whitespace t). js_whitespace x"
    by (simp add: js_trim_def)
  show "list_all js_whitespace t"
  proof (cases "dropWhile js_whitespace t")
    case Nil
    then show ?thesis by (simp add: list_all_iff)
  next
    case (Cons c cs)
    then have "\<not> js_whitespace c"
      using hd_dropWhile [of js_whitespace t] by simp
    moreover from inner Cons have "js_whitespace c"
      by simp
    ultimately show ?thesis by simp
  qed
next
  assume "list_all js_whitespace t"
  then have "dropWhile js_whitespace t = []"
    by (simp add: list_all_iff)
  then show "js_trim t = []"
    unfolding js_trim_def by (simp only: rev.simps dropWhile.simps)
qed

subsection \<open>Saving with a blank title\<close>

text \<open>
  C2. When the draft's title is empty or consists of whitespace only, \<^verbatim>\<open>handleNoteSave\<close>
  sends no request at all (neither insert nor update, nor a load), shows the alert
  "Title is required.", and leaves every state cell as it was, so the main pane still
  shows the same editor with the same draft, selection and collection. This holds
  whatever the store would have answered.
\<close>

theorem handleNoteSave_blank_title:
  assumes "list_all js_whitespace (title (editNote r))"
  shows "handleNoteSave r s now resp fresp =
           \<lparr>post = s, effects = [Alert (js_lit ''Title is required.'')], thrown = None\<rparr>
         \<and> mainPane (post (handleNoteSave r s now resp fresp)) = mainPane s"
proof -
  from assms have "js_trim (title (editNote r)) = []"
    by (simp add: js_trim_eq_Nil_iff)
  then show ?thesis
    by (simp add: handleNoteSave_def)
qed

theorem handleNoteSave_blank_title_witness:
  "list_all js_whitespace (title (editNote blank_title_state))
   \<and> handleNoteSave blank_title_state blank_title_state 7 None (Inr []) =
       \<lparr>post = blank_title_state, effects = [Alert (js_lit ''Title is required.'')],
        thrown = None\<rparr>
   \<and> mainPane blank_title_state = NewNoteEditor \<lparr>title = [0x20, 0x09], content = []\<rparr>"
proof -
  have h: "list_all js_whitespace (title (editNote blank_title_state))"
    by (simp add: example_defs js_whitespace_def)
  have p: "mainPane blank_title_state = NewNoteEditor \<lparr>title = [0x20, 0x09], content = []\<rparr>"
    by (simp add: example_defs mainPane_def)
  from handleNoteSave_blank_title [OF h, of blank_title_state 7 None "Inr []"] h p
  show ?thesis
    by simp
qed

subsection \<open>Deleting with nothing selected\<close>

text \<open>
  C10. When no note is selected, \<^verbatim>\<open>handleNoteDelete\<close> returns at once: the trace is
  empty (no confirm dialog, no delete request, no load), nothing is thrown, and the state
  is the one it started from, whatever the user or the store would have answered.
\<close>

theorem handleNoteDelete_nothing_selected:
  assumes "selectedNote s = None"
  shows "handleNoteDelete s ok resp fresp = \<lparr>post = s, effects = [], thrown = None\<rparr>"
  using assms by (simp add: handleNoteDelete_def)

theorem handleNoteDelete_nothing_selected_witness:
  "selectedNote initial_state = None
   \<and> handleNoteDelete initial_state True None (Inr []) =
       \<lparr>post = initial_state, effects = [], thrown = None\<rparr>"
proof -
  have h: "selectedNote initial_state = None"
    by (simp add: initial_state_def)
  from handleNoteDelete_nothing_selected [OF h, of True None "Inr []"] h show ?thesis
    by simp
qed

subsection \<open>A failed load\<close>

text \<open>
  C8. When the store answers a load with an error, \<^verbatim>\<open>fetchNotes\<close> empties the collection
  and clears the loading flag. Its whole trace is the one select request: the request is
  not sent a second time, and no alert or other dialog tells the user of the failure.
\<close>

theorem fetchNotes_failure:
  assumes "user r = Some u"
  shows "fetchNotes r s (Inl err) =
           \<lparr>post = s\<lparr>notes := [], loadingNotes := False\<rparr>,
            effects = [Request (notes_query u (search r))], thrown = None\<rparr>"
  using assms by (simp add: fetchNotes_def)

theorem fetchNotes_failure_witness:
  "user signed_in_state = Some example_user
   \<and> notes signed_in_state = [example_note]
   \<and> notes (post (fetchNotes signed_in_state signed_in_state (Inl \<lparr>message = [0x21]\<rparr>))) = []
   \<and> effects (fetchNotes signed_in_state signed_in_state (Inl \<lparr>message = [0x21]\<rparr>)) =
       [Request (SelectNotes 1 None)]"
proof -
  have h: "user signed_in_state = Some example_user"
    by (simp add: example_defs)
  have q: "notes_query example_user (search signed_in_state) = SelectNotes 1 None"
    by (simp add: example_defs notes_query_def)
  have n: "notes signed_in_state = [example_note]"
    by (simp add: example_defs)
  from fetchNotes_failure [OF h, of signed_in_state "\<lparr>message = [0x21]\<rparr>"] q h n
  show ?thesis by simp
qed

subsection \<open>A successful save\<close>

lemma js_trim_new_note_state: "js_trim (title (editNote new_note_state)) = [0x41]"
  by (simp add: example_defs js_trim_def js_whitespace_def)

lemma js_trim_edit_note_state: "js_trim (title (editNote edit_note_state)) = [0x42]"
  by (simp add: example_defs js_trim_def js_whitespace_def)

text \<open>
  What a successful save does, whatever the state is when the store answers. The
  requests are built from the render; \<^verbatim>\<open>adding\<close> is cleared, or the draft is spread
  over the selection, in the state of that later moment.
\<close>

lemma handleNoteSave_create_outcome:
  assumes "js_trim (title (editNote r)) \<noteq> []" and "user r = Some u" and "adding r"
  shows "handleNoteSave r s now None fresp =
           \<lparr>post = s\<lparr>adding := False, notes := (case fresp of Inl e \<Rightarrow> [] | Inr d \<Rightarrow> d),
                     loadingNotes := False\<rparr>,
            effects = [Request (InsertNote (u_id u) (title (editNote r))
                                  (or_empty (content (editNote r)))),
                       Request (notes_query u (search r))],
            thrown = None\<rparr>"
  using assms
  by (simp add: handleNoteSave_def fetchNotes_def then_fetch_def split: sum.splits)

lemma handleNoteSave_update_outcome:
  assumes "js_trim (title (editNote r)) \<noteq> []" and "user r = Some u" and "\<not> adding r"
    and "selectedNote r = Some n"
  shows "handleNoteSave r s now None fresp =
           \<lparr>post = s\<lparr>selectedNote := Some (spread_draft (selectedNote s) (editNote r)),
                     notes := (case fresp of Inl e \<Rightarrow> [] | Inr d \<Rightarrow> d),
                     loadingNotes := False\<rparr>,
            effects = [Request (UpdateNote (n_id n) (u_id u) (title (editNote r))
                                  (or_empty (content (editNote r))) now),
                       Request (notes_query u (search r))],
            thrown = None\<rparr>"
  using assms
  by (simp add: handleNoteSave_def fetchNotes_def then_fetch_def split: sum.splits)


text \<open>
  Pressing "Add Note" while the update is in flight: the selection is null when the store
  answers, and the spread leaves an object with a title and a content and no id.
\<close>

lemma handleNoteSave_in_flight_add_click:
  "selectedNote (post (handleNoteSave saving_state (handleNoteAddClick saving_state) 7 None
                         (Inr [example_note, other_note]))) =
     Some \<lparr>n_id = None, n_user_id = None, n_title = [0x42, 0x20], n_content = [0x61],
           n_updated_at = None\<rparr>
   \<and> adding (post (handleNoteSave saving_state (handleNoteAddClick saving_state) 7 None
                      (Inr [example_note, other_note])))"
  by (simp add: saving_state_def two_notes_state_def other_note_def example_defs
      handleNoteSave_def fetchNotes_def then_fetch_def spread_draft_def js_trim_def
      js_whitespace_def)



subsection \<open>The title is sent as typed\<close>

text \<open>
  C9. Let the draft's title be non-empty after trimming and differ from its trimmed form
  (it has whitespace at an end), the user be signed in and the store accept the save.
  Then the insert request (when adding) and the update request (when a note is selected)
  carry the draft's title exactly as typed, and no insert or update request carrying the
  trimmed title is sent: \<^verbatim>\<open>trim\<close> is used for the emptiness test only.
\<close>

theorem handleNoteSave_title_verbatim:
  assumes "js_trim (title (editNote r)) \<noteq> []"
    and "js_trim (title (editNote r)) \<noteq> title (editNote r)"
    and "user r = Some u"
  shows "(adding r \<longrightarrow>
            effects (handleNoteSave r s now None fresp) =
              [Request (InsertNote (u_id u) (title (editNote r))
                          (or_empty (content (editNote r)))),
               Request (notes_query u (search r))])
       \<and> (\<not> adding r \<and> selectedNote r = Some n \<longrightarrow>
            effects (handleNoteSave r s now None fresp) =
              [Request (UpdateNote (n_id n) (u_id u) (title (editNote r))
                          (or_empty (content (editNote r))) now),
               Request (notes_query u (search r))])
       \<and> (\<forall>i c. Request (InsertNote i (js_trim (title (editNote r))) c)
                  \<notin> set (effects (handleNoteSave r s now None fresp)))
       \<and> (\<forall>i j c t. Request (UpdateNote i j (js_trim (title (editNote r))) c t)
                  \<notin> set (effects (handleNoteSave r s now None fresp)))"
  using assms
  by (auto simp add: handleNoteSave_def fetchNotes_def then_fetch_def notes_query_def
      split: sum.splits option.splits)

theorem handleNoteSave_title_verbatim_witness:
  "js_trim (title (editNote new_note_state)) = [0x41]
   \<and> title (editNote new_note_state) = [0x20, 0x41]
   \<and> user new_note_state = Some example_user \<and> adding new_note_state
   \<and> effects (handleNoteSave new_note_state new_note_state 7 None (Inr [])) =
       [Request (InsertNote 1 [0x20, 0x41] []), Request (SelectNotes 1 None)]
   \<and> js_trim (title (editNote edit_note_state)) = [0x42]
   \<and> title (editNote edit_note_state) = [0x42, 0x20]
   \<and> user edit_note_state = Some example_user
   \<and> \<not> adding edit_note_state \<and> selectedNote edit_note_state = Some example_note
   \<and> effects (handleNoteSave edit_note_state edit_note_state 7 None (Inr [])) =
       [Request (UpdateNote (Some 10) 1 [0x42, 0x20] [0x61] 7), Request (SelectNotes 1 None)]"
proof -
  have a1: "js_trim (title (editNote new_note_state)) \<noteq> []"
    by (simp add: js_trim_new_note_state)
  have a2: "js_trim (title (editNote new_note_state)) \<noteq> title (editNote new_note_state)"
    by (simp add: js_trim_new_note_state) (simp add: example_defs)
  have a3: "user new_note_state = Some example_user"
    by (simp add: example_defs)
  have a4: "adding new_note_state \<and> title (editNote new_note_state) = [0x20, 0x41]
            \<and> or_empty (content (editNote new_note_state)) = []
            \<and> notes_query example_user (search new_note_state) = SelectNotes 1 None
            \<and> u_id example_user = 1"
    by (simp add: example_defs or_empty_def notes_query_def)
  have b1: "js_trim (title (editNote edit_note_state)) \<noteq> []"
    by (simp add: js_trim_edit_note_state)
  have b2: "js_trim (title (editNote edit_note_state)) \<noteq> title (editNote edit_note_state)"
    by (simp add: js_trim_edit_note_state) (simp add: example_defs)
  have b3: "user edit_note_state = Some example_user"
    by (simp add: example_defs)
  have b4: "\<not> adding edit_note_state \<and> selectedNote edit_note_state = Some example_note
            \<and> title (editNote edit_note_state) = [0x42, 0x20]
            \<and> or_empty (content (editNote edit_note_state)) = [0x61]
            \<and> notes_query example_user (search edit_note_state) = SelectNotes 1 None
            \<and> n_id example_note = Some 10"
    by (simp add: example_defs or_empty_def notes_query_def)
  from handleNoteSave_title_verbatim
         [OF a1 a2 a3, of new_note_state 7 "Inr []" example_note] a4
  have c1: "effects (handleNoteSave new_note_state new_note_state 7 None (Inr [])) =
              [Request (InsertNote 1 [0x20, 0x41] []), Request (SelectNotes 1 None)]"
    by simp
  from handleNoteSave_title_verbatim
         [OF b1 b2 b3, of edit_note_state 7 "Inr []" example_note] a4 b4
  have c2: "effects (handleNoteSave edit_note_state edit_note_state 7 None (Inr [])) =
              [Request (UpdateNote (Some 10) 1 [0x42, 0x20] [0x61] 7),
               Request (SelectNotes 1 None)]"
    by simp
  from a3 a4 b3 b4 c1 c2 show ?thesis
    by (simp add: js_trim_def js_whitespace_def)
qed

subsection \<open>A failed save or delete\<close>

text \<open>
  C5. When the store answers an insert, an update or a delete with an error, the handler
  leaves every state cell as it was (selection, draft, \<^verbatim>\<open>adding\<close>, collection and the
  rest). Its trace is the one request followed by one alert showing the error's message
  (for a delete, preceded by the confirm dialog): no load request follows and the request
  is not sent again.
\<close>

theorem failed_request_changes_nothing:
  assumes "user r = Some u"
  shows "(js_trim (title (editNote r)) \<noteq> [] \<and> adding r \<longrightarrow>
            handleNoteSave r s now (Some err) fresp =
              \<lparr>post = s,
               effects = [Request (InsertNote (u_id u) (title (editNote r))
                                     (or_empty (content (editNote r)))),
                          Alert (message err)],
               thrown = None\<rparr>)
       \<and> (js_trim (title (editNote r)) \<noteq> [] \<and> \<not> adding r \<and> selectedNote r = Some n \<longrightarrow>
            handleNoteSave r s now (Some err) fresp =
              \<lparr>post = s,
               effects = [Request (UpdateNote (n_id n) (u_id u) (title (editNote r))
                                     (or_empty (content (editNote r))) now),
                          Alert (message err)],
               thrown = None\<rparr>)
       \<and> (selectedNote r = Some n \<longrightarrow>
            handleNoteDelete r True (Some err) fresp =
              \<lparr>post = r,
               effects = [Confirm (js_lit ''Delete this note?''),
                          Request (DeleteNote (n_id n) (u_id u)),
                          Alert (message err)],
               thrown = None\<rparr>)"
  using assms
  by (simp add: handleNoteSave_def handleNoteDelete_def)

theorem failed_request_changes_nothing_witness:
  "user new_note_state = Some example_user
   \<and> js_trim (title (editNote new_note_state)) \<noteq> [] \<and> adding new_note_state
   \<and> handleNoteSave new_note_state new_note_state 7 (Some \<lparr>message = [0x21]\<rparr>) (Inr []) =
       \<lparr>post = new_note_state,
        effects = [Request (InsertNote 1 [0x20, 0x41] []), Alert [0x21]], thrown = None\<rparr>
   \<and> user edit_note_state = Some example_user
   \<and> js_trim (title (editNote edit_note_state)) \<noteq> [] \<and> \<not> adding edit_note_state
   \<and> selectedNote edit_note_state = Some example_note
   \<and> handleNoteSave edit_note_state edit_note_state 7 (Some \<lparr>message = [0x21]\<rparr>) (Inr []) =
       \<lparr>post = edit_note_state,
        effects = [Request (UpdateNote (Some 10) 1 [0x42, 0x20] [0x61] 7), Alert [0x21]],
        thrown = None\<rparr>
   \<and> handleNoteDelete edit_note_state True (Some \<lparr>message = [0x21]\<rparr>) (Inr []) =
       \<lparr>post = edit_note_state,
        effects = [Confirm (js_lit ''Delete this note?''), Request (DeleteNote (Some 10) 1),
                   Alert [0x21]],
        thrown = None\<rparr>"
proof -
  have a1: "user new_note_state = Some example_user"
    by (simp add: example_defs)
  have a2: "js_trim (title (editNote new_note_state)) \<noteq> [] \<and> adding new_note_state"
    by (simp add: js_trim_new_note_state) (simp add: example_defs)
  have a3: "title (editNote new_note_state) = [0x20, 0x41]
            \<and> or_empty (content (editNote new_note_state)) = [] \<and> u_id example_user = 1"
    by (simp add: example_defs or_empty_def)
  have b1: "user edit_note_state = Some example_user"
    by (simp add: example_defs)
  have b2: "js_trim (title (editNote edit_note_state)) \<noteq> [] \<and> \<not> adding edit_note_state
            \<and> selectedNote edit_note_state = Some example_note"
    by (simp add: js_trim_edit_note_state) (simp add: example_defs)
  have b3: "title (editNote edit_note_state) = [0x42, 0x20]
            \<and> or_empty (content (editNote edit_note_state)) = [0x61]
            \<and> n_id example_note = Some 10"
    by (simp add: example_defs or_empty_def)
  from failed_request_changes_nothing
         [OF a1, of new_note_state 7 "\<lparr>message = [0x21]\<rparr>" "Inr []" example_note] a2 a3
  have c1: "handleNoteSave new_note_state new_note_state 7 (Some \<lparr>message = [0x21]\<rparr>)
              (Inr []) =
              \<lparr>post = new_note_state,
               effects = [Request (InsertNote 1 [0x20, 0x41] []), Alert [0x21]],
               thrown = None\<rparr>"
    by simp
  from failed_request_changes_nothing
         [OF b1, of edit_note_state 7 "\<lparr>message = [0x21]\<rparr>" "Inr []" example_note] a3 b2 b3
  have c2: "handleNoteSave edit_note_state edit_note_state 7 (Some \<lparr>message = [0x21]\<rparr>)
              (Inr []) =
              \<lparr>post = edit_note_state,
               effects = [Request (UpdateNote (Some 10) 1 [0x42, 0x20] [0x61] 7),
                          Alert [0x21]],
               thrown = None\<rparr>
            \<and> handleNoteDelete edit_note_state True (Some \<lparr>message = [0x21]\<rparr>) (Inr []) =
              \<lparr>post = edit_note_state,
               effects = [Confirm (js_lit ''Delete this note?''),
                          Request (DeleteNote (Some 10) 1), Alert [0x21]],
               thrown = None\<rparr>"
    by simp
  from a1 a2 b1 b2 c1 c2 show ?thesis
    by simp
qed

subsection \<open>Deleting the selected note\<close>



subsection \<open>The debounced search\<close>

lemma run_append: "run resp rt (xs @ ys) = run resp (run resp rt xs) ys"
  by (simp add: run_def)

lemma run_Cons: "run resp rt (e # es) = run resp (step resp rt e) es"
  by (simp add: run_def)

lemma run_Nil: "run resp rt [] = rt"
  by (simp add: run_def)

lemma first_change_arms:
  assumes "user (app rt) = Some u" and "mounted rt" and "v \<noteq> search (app rt)"
  shows "armed u (step resp rt (SearchChange v))"
    and "trace (step resp rt (SearchChange v)) = trace rt"
    and "search (app (step resp rt (SearchChange v))) = v"
  using assms by (simp_all add: armed_def searchEffect_def handleSearchChange_def Let_def)

lemma quick_wait_keeps:
  assumes "armed u rt" and "d < 300"
  shows "user (app (step resp rt (Wait d))) = Some u"
    and "mounted (step resp rt (Wait d))"
    and "trace (step resp rt (Wait d)) = trace rt"
    and "search (app (step resp rt (Wait d))) = search (app rt)"
    and "timeout (step resp rt (Wait d)) = timeout rt"
  using assms by (simp_all add: armed_def)

lemma typing_keeps_armed:
  assumes "armed u rt" and "list_all (\<lambda>(d, v). d < 300) ks"
    and "changes_from (search (app rt)) (map snd ks)"
  shows "armed u (run resp rt (typing ks))
         \<and> trace (run resp rt (typing ks)) = trace rt
         \<and> search (app (run resp rt (typing ks))) = last (search (app rt) # map snd ks)"
  using assms
proof (induction ks arbitrary: rt)
  case Nil
  then show ?case by (simp add: run_Nil)
next
  case (Cons k ks)
  obtain d v where k: "k = (d, v)" by (cases k)
  let ?w = "step resp rt (Wait d)"
  let ?c = "step resp ?w (SearchChange v)"
  from Cons.prems k have d: "d < 300" and v: "v \<noteq> search (app rt)"
    and rest: "list_all (\<lambda>(d, v). d < 300) ks" "changes_from v (map snd ks)"
    by simp_all
  note w = quick_wait_keeps [OF Cons.prems(1) d, of resp]
  from v w have v': "v \<noteq> search (app ?w)" by simp
  note c = first_change_arms [OF w(1) w(2) v', of resp]
  from rest c have ih: "armed u (run resp ?c (typing ks))
         \<and> trace (run resp ?c (typing ks)) = trace ?c
         \<and> search (app (run resp ?c (typing ks))) = last (search (app ?c) # map snd ks)"
    by (intro Cons.IH) simp_all
  have "run resp rt (typing (k # ks)) = run resp ?c (typing ks)"
    by (simp add: k run_Cons)
  with ih c w show ?case
    by (simp add: k)
qed

lemma armed_fires:
  assumes "armed u rt" and "300 \<le> d"
  shows "trace (step resp rt (Wait d)) = trace rt @ [Request (notes_query u (search (app rt)))]"
    and "timeout (step resp rt (Wait d)) = None"
  using assms by (auto simp add: armed_def fetchNotes_def Let_def split: sum.splits)

lemma armed_unmount:
  assumes "armed u rt" and "d' < 300"
  shows "trace (run resp rt [Wait d', Unmount, Wait d]) = trace rt"
  using assms by (simp add: armed_def run_def)

text \<open>
  C6. Let the user be signed in and the component mounted. Let the search term change to
  \<open>v0\<close> and then again and again (\<open>ks\<close>), each change less than 300 milliseconds
  after the one before and each to a term that differs from the one before. Then (1) once 300 milliseconds or more have passed after the last change, the
  trace has grown by exactly one load request, and it asks for the last term; (2) right
  after the last change the pending timeout is due 300 milliseconds after that change,
  however long the burst has lasted: every change starts the delay afresh; (3) when the
  component is unmounted less than 300 milliseconds after the last change, no load request
  is sent, then or later.
\<close>

theorem search_debounce:
  assumes "user (app rt) = Some u" and "mounted rt"
    and "list_all (\<lambda>(d, v). d < 300) ks"
    and "changes_from (search (app rt)) (v0 # map snd ks)"
    and "300 \<le> d" and "d' < 300"
  shows "trace (run resp rt (SearchChange v0 # typing ks @ [Wait d])) =
           trace rt @ [Request (notes_query u (last (v0 # map snd ks)))]
       \<and> timeout (run resp rt (SearchChange v0 # typing ks)) =
           Some \<lparr>due = clock (run resp rt (SearchChange v0 # typing ks)) + 300,
                 closure = app (run resp rt (SearchChange v0 # typing ks))\<rparr>
       \<and> trace (run resp rt (SearchChange v0 # typing ks @ [Wait d', Unmount, Wait d])) =
           trace rt"
proof -
  let ?c = "step resp rt (SearchChange v0)"
  let ?t = "run resp ?c (typing ks)"
  from assms have v0: "v0 \<noteq> search (app rt)" and vs: "changes_from v0 (map snd ks)"
    by simp_all
  note c = first_change_arms [OF assms(1) assms(2) v0, of resp]
  from vs c have "changes_from (search (app ?c)) (map snd ks)" by simp
  from typing_keeps_armed [OF c(1) assms(3) this]
  have t: "armed u ?t" "trace ?t = trace rt" "search (app ?t) = last (v0 # map snd ks)"
    using c by simp_all
  have r1: "run resp rt (SearchChange v0 # typing ks @ [Wait d]) = step resp ?t (Wait d)"
    by (simp add: run_Cons run_append run_Nil)
  have r2: "run resp rt (SearchChange v0 # typing ks) = ?t"
    by (simp add: run_Cons)
  have r3: "run resp rt (SearchChange v0 # typing ks @ [Wait d', Unmount, Wait d]) =
              run resp ?t [Wait d', Unmount, Wait d]"
    by (simp add: run_Cons run_append)
  from armed_fires(1) [OF t(1) assms(5), of resp] t
  have "trace (step resp ?t (Wait d)) =
          trace rt @ [Request (notes_query u (last (v0 # map snd ks)))]"
    by simp
  moreover from t(1) have "timeout ?t = Some \<lparr>due = clock ?t + 300, closure = app ?t\<rparr>"
    by (simp add: armed_def)
  moreover from armed_unmount [OF t(1) assms(6), of resp d] t
  have "trace (run resp ?t [Wait d', Unmount, Wait d]) = trace rt"
    by simp
  ultimately show ?thesis
    by (simp only: r1 r2 r3)
qed

theorem search_debounce_witness:
  "user (app idle_runtime) = Some example_user \<and> mounted idle_runtime
   \<and> list_all (\<lambda>(d, v). d < 300) [(100::nat, [0x61, 0x62::16 word]), (299, [0x61, 0x62, 0x63])]
   \<and> changes_from (search (app idle_runtime))
        ([0x61] # map snd [(100::nat, [0x61, 0x62::16 word]), (299, [0x61, 0x62, 0x63])])
   \<and> trace (run (Inr []) idle_runtime
              (SearchChange [0x61] # typing [(100::nat, [0x61, 0x62::16 word]), (299, [0x61, 0x62, 0x63])]
                 @ [Wait 300])) =
       [Request (SelectNotes 1 (Some [0x25, 0x61, 0x62, 0x63, 0x25]))]
   \<and> trace (run (Inr []) idle_runtime
              (SearchChange [0x61] # typing [(100::nat, [0x61, 0x62::16 word]), (299, [0x61, 0x62, 0x63])]
                 @ [Wait 299, Unmount, Wait 300])) = []"
proof -
  have h1: "user (app idle_runtime) = Some example_user"
    by (simp add: idle_runtime_def example_defs)
  have h2: "mounted idle_runtime"
    by (simp add: idle_runtime_def)
  have h4: "list_all (\<lambda>(d, v). d < 300) [(100::nat, [0x61, 0x62::16 word]), (299, [0x61, 0x62, 0x63])]"
    by simp
  have h5: "changes_from (search (app idle_runtime))
              ([0x61] # map snd [(100::nat, [0x61, 0x62::16 word]), (299, [0x61, 0x62, 0x63])])"
    by (simp add: idle_runtime_def example_defs)
  have h6: "(300::nat) \<le> 300" and h7: "(299::nat) < 300"
    by simp_all
  have q: "notes_query example_user [0x61, 0x62, 0x63] =
             SelectNotes 1 (Some [0x25, 0x61, 0x62, 0x63, 0x25])"
    and t: "trace idle_runtime = []"
    by (simp_all add: notes_query_def search_pattern_def example_user_def idle_runtime_def)
  from search_debounce [OF h1 h2 h4 h5 h6 h7, of "Inr []"] q t
  have c: "trace (run (Inr []) idle_runtime
              (SearchChange [0x61] # typing [(100::nat, [0x61, 0x62::16 word]), (299, [0x61, 0x62, 0x63])]
                 @ [Wait 300])) =
             [Request (SelectNotes 1 (Some [0x25, 0x61, 0x62, 0x63, 0x25]))]
           \<and> trace (run (Inr []) idle_runtime
              (SearchChange [0x61] # typing [(100::nat, [0x61, 0x62::16 word]), (299, [0x61, 0x62, 0x63])]
                 @ [Wait 299, Unmount, Wait 300])) = []"
    by simp
  from h1 h2 h4 h5 c show ?thesis
    by simp
qed

subsection \<open>Signing out\<close>

text \<open>
  What signing out does clear: the user, the collection and the selection, so the
  sign-in form is rendered. \<^verbatim>\<open>adding\<close> and the draft are left as they are.
\<close>

lemma sign_out_clears:
  "post (handleLogout s) = s\<lparr>user := None, notes := [], selectedNote := None\<rparr>"
  "post (onAuthStateChange s SIGNED_OUT None) =
     s\<lparr>user := None, notes := [], selectedNote := None\<rparr>"
  "render (s\<lparr>user := None, notes := [], selectedNote := None\<rparr>) = AuthForm"
  "mainPane (s\<lparr>user := None, notes := [], selectedNote := None\<rparr>) =
     (if adding s then NewNoteEditor (editNote s) else Placeholder)"
  by (simp_all add: handleLogout_def onAuthStateChange_def render_def mainPane_def)

text \<open>
  C4 (fails on the code). The claim: signing out, by \<^verbatim>\<open>handleLogout\<close> or by a
  \<^verbatim>\<open>SIGNED_OUT\<close> notification, leaves no user, an empty collection, no selection, no
  draft, and the editor in Browsing. The code at a state where a new note is being
  written: after either way of signing out \<^verbatim>\<open>adding\<close> is still set and the draft still
  holds what was typed, so the main pane is the editor for a new note, not the
  placeholder; when another user signs in, the page shows that editor with the first
  user's draft.
\<close>

theorem sign_out_keeps_new_note_draft:
  "user new_note_state = Some example_user
   \<and> mainPane new_note_state = NewNoteEditor \<lparr>title = [0x20, 0x41], content = []\<rparr>
   \<and> adding (post (handleLogout new_note_state))
   \<and> editNote (post (handleLogout new_note_state)) = \<lparr>title = [0x20, 0x41], content = []\<rparr>
   \<and> mainPane (post (handleLogout new_note_state)) =
       NewNoteEditor \<lparr>title = [0x20, 0x41], content = []\<rparr>
   \<and> mainPane (post (onAuthStateChange new_note_state SIGNED_OUT None)) =
       NewNoteEditor \<lparr>title = [0x20, 0x41], content = []\<rparr>
   \<and> render (post (onAuthStateChange (post (handleLogout new_note_state)) SIGNED_IN
                     (Some \<lparr>session_user = Some \<lparr>u_id = 2\<rparr>\<rparr>))) =
       NotesPage (NewNoteEditor \<lparr>title = [0x20, 0x41], content = []\<rparr>)"
  by (simp add: example_defs handleLogout_def onAuthStateChange_def mainPane_def render_def)

subsection \<open>Which notes a load asks for\<close>

lemma fetchNotes_request:
  "user r = Some u \<Longrightarrow> effects (fetchNotes r s resp) = [Request (notes_query u (search r))]"
  by (simp add: fetchNotes_def split: sum.splits)

lemma like_tokens_step:
  "c \<noteq> 0x5C \<Longrightarrow> rest \<noteq> [] \<Longrightarrow>
   like_tokens (c # rest) = map_option ((#) (plain_token c)) (like_tokens rest)"
  by (cases rest) simp_all

lemma like_tokens_plain:
  "list_all (\<lambda>c. \<not> wildcard c) q \<Longrightarrow>
   like_tokens (q @ [0x25]) = Some (map Lit q @ [AnySeq])"
proof (induction q)
  case Nil
  then show ?case by (simp add: plain_token_def)
next
  case (Cons c q)
  then have "c \<noteq> 0x5C" and "plain_token c = Lit c"
    by (simp_all add: wildcard_def plain_token_def)
  with Cons show ?case
    by (simp add: like_tokens_step)
qed

lemma postgrest_pattern_plain:
  "list_all (\<lambda>c. \<not> wildcard c) q \<Longrightarrow> postgrest_pattern q = q"
  by (induction q) (simp_all add: postgrest_pattern_def wildcard_def)

lemma like_tokens_search_pattern:
  assumes "list_all (\<lambda>c. \<not> wildcard c) q"
  shows "like_tokens (postgrest_pattern (search_pattern q)) =
           Some (AnySeq # map Lit q @ [AnySeq])"
proof -
  have "postgrest_pattern (search_pattern q) = 0x25 # (q @ [0x25])"
    using postgrest_pattern_plain [OF assms]
    by (simp add: search_pattern_def postgrest_pattern_def)
  moreover have "like_tokens (0x25 # (q @ [0x25])) =
                   map_option ((#) (plain_token 0x25)) (like_tokens (q @ [0x25]))"
    by (rule like_tokens_step) simp_all
  ultimately show ?thesis
    using like_tokens_plain [OF assms] by (simp add: plain_token_def)
qed

lemma like_match_AnySeq_end [simp]: "like_match lc [AnySeq] t"
  by (induction t) auto

lemma like_match_lits:
  "like_match lc (map Lit q @ [AnySeq]) t \<longleftrightarrow> prefix (map lc q) (map lc t)"
proof (induction q arbitrary: t)
  case Nil
  then show ?case by simp
next
  case (Cons c q)
  then show ?case by (cases t) auto
qed

lemma like_match_contains:
  "like_match lc (AnySeq # map Lit q @ [AnySeq]) t \<longleftrightarrow> sublist (map lc q) (map lc t)"
proof (induction t)
  case Nil
  have "like_match lc (map Lit q @ [AnySeq]) [] \<longleftrightarrow> prefix (map lc q) (map lc [])"
    by (rule like_match_lits)
  then show ?case by simp
next
  case (Cons x t)
  have "like_match lc (map Lit q @ [AnySeq]) (x # t) \<longleftrightarrow>
          prefix (map lc q) (map lc (x # t))"
    by (rule like_match_lits)
  with Cons show ?case
    by (simp add: sublist_Cons_right)
qed

lemma plain_search_is_substring:
  assumes "q \<noteq> []" and "list_all (\<lambda>c. \<not> wildcard c) q"
  shows "requested_rows lc table (notes_query u q) =
           Some (order_desc (filter (\<lambda>n. sublist (map lc q) (map lc (row_title n)))
                               (filter (\<lambda>n. row_user_id n = u_id u) table)))"
  using assms
  by (simp add: requested_rows_def notes_query_def select_rows_def
      like_tokens_search_pattern like_match_contains)

lemma empty_search_is_all:
  "requested_rows lc table (notes_query u []) =
     Some (order_desc (filter (\<lambda>n. row_user_id n = u_id u) table))"
  by (simp add: requested_rows_def notes_query_def select_rows_def)

lemma order_desc_sorted: "sorted (rev (map row_updated_at (order_desc rows)))"
  by (simp add: order_desc_def rev_map)

lemma order_desc_set:
  "set (order_desc rows) = set rows \<and> length (order_desc rows) = length rows"
  by (simp add: order_desc_def)

text \<open>
  C3 (fails on the code). The claim: for every search term, a load asks for the owner's
  notes by descending \<^verbatim>\<open>updated_at\<close>, all of them when the term is empty, and when it is
  not, only those whose title contains the term as a substring, case ignored. The first
  two parts hold (\<open>fetchNotes_request\<close>, \<open>empty_search_is_all\<close>, \<open>order_desc_sorted\<close>),
  and so does the third for a term with no \<^verbatim>\<open>%\<close>, \<^verbatim>\<open>_\<close>, \<^verbatim>\<open>*\<close> or backslash (\<open>plain_search_is_substring\<close>).
  But \<^verbatim>\<open>fetchNotes\<close> puts the term into the pattern as it is: for the term \<^verbatim>\<open>_\<close> the
  request carries the pattern \<^verbatim>\<open>%_%\<close>, which asks for every note with a title of at
  least one character. The note titled \<^verbatim>\<open>A\<close> is asked for, and its title does not
  contain \<^verbatim>\<open>_\<close>.
\<close>

theorem underscore_search_matches_any_title:
  "effects (fetchNotes (handleSearchChange signed_in_state [0x5F])
              (handleSearchChange signed_in_state [0x5F]) (Inr [example_note])) =
     [Request (SelectNotes 1 (Some [0x25, 0x5F, 0x25]))]
   \<and> requested_rows ascii_lower [example_row] (SelectNotes 1 (Some [0x25, 0x5F, 0x25])) =
       Some [example_row]
   \<and> example_note = row_object example_row \<and> n_title example_note = [0x41]
   \<and> \<not> sublist (map ascii_lower [0x5F]) (map ascii_lower [0x41])"
  by (simp add: fetchNotes_def handleSearchChange_def example_defs notes_query_def
      search_pattern_def requested_rows_def select_rows_def postgrest_pattern_def
      plain_token_def order_desc_def ascii_lower_def sublist_Cons_right)

end
